theory Spec2Isabelle
  imports Main "HOL-Library.Sublist"
begin

section \<open>The conversion script \<^verbatim>\<open>convert_onnx_to_tflite.py\<close>\<close>

text \<open>
  The script is a straight line of statements over three kinds of state: the attribute
  namespace of the \<^verbatim>\<open>tf\<close> module, the file system, and standard output. Each statement
  either returns or raises; an exception that nothing catches ends the process with
  the line of the failing statement in its traceback. The model threads a record of the
  state through the statements and returns, beside the final state, either the value of
  the statement or the pair (line, exception).

  The libraries (onnx, onnx-tf, tensorflow) are not part of the script. What they compute
  is a parameter of the model (the record \<open>libs\<close>): each is a function of the arguments
  and of the state the call can read, returning a value or an exception.
\<close>

subsection \<open>Data\<close>

type_synonym bytes = string

datatype node = File bytes | Dir

type_synonym filesystem = "string \<rightharpoonup> node"

datatype error =
    AttributeError string
  | ImportError string
  | FileNotFoundError string
  | IsADirectoryError string
  | LibraryError string

type_synonym failure = "nat \<times> error"

text \<open>The members of \<^verbatim>\<open>tf.lite.Optimize\<close>.\<close>

datatype optimize =
    DEFAULT
  | OPTIMIZE_FOR_SIZE
  | OPTIMIZE_FOR_LATENCY
  | EXPERIMENTAL_SPARSITY

text \<open>
  The history of the run: one entry for each assignment to an attribute of \<^verbatim>\<open>tf\<close>
  and for each call that leaves the script, in the order they happen. A call is
  entered in the history when it is made, whether it returns or raises.
\<close>

datatype event =
    SetAttr string
  | Import_backend
  | Onnx_load string
  | Prepare bool
  | Path_exists string
  | Rmtree string
  | Export_graph string
  | From_saved_model string
  | Convert "optimize list"
  | Open_wb string
  | Write_bytes string bytes
  | Print string

record 'f world =
  tf_attrs :: "string \<rightharpoonup> 'f"
  tf_math :: "string \<rightharpoonup> 'f"
  files :: filesystem
  stdout :: "string list"
  calls :: "event list"

text \<open>
  The external collaborators. \<open>import_backend\<close> is the import of
  \<^verbatim>\<open>onnx_tf.backend\<close> (it may read the attributes of \<^verbatim>\<open>tf\<close>); \<open>parse_model\<close> is
  what \<^verbatim>\<open>onnx.load\<close> makes of the bytes of a file; \<open>prepare\<close> takes the model and the
  flag \<^verbatim>\<open>strict\<close>; \<open>export_bundle\<close> gives the files of the bundle that
  \<^verbatim>\<open>export_graph\<close> writes, by their names relative to the export directory;
  \<open>from_saved_model\<close> reads the files of a directory; \<open>convert\<close> takes the converter's
  model and its \<^verbatim>\<open>optimizations\<close>. \<open>rmtree_deletes_file\<close> says what
  \<^verbatim>\<open>tf.io.gfile.rmtree\<close> does when its argument is a plain file: delete it, or raise
  (the versions of the library differ).
\<close>

record ('f, 'm, 'r, 'c) libs =
  import_backend :: "(string \<rightharpoonup> 'f) \<Rightarrow> error option"
  parse_model :: "bytes \<Rightarrow> error + 'm"
  prepare :: "(string \<rightharpoonup> 'f) \<Rightarrow> 'm \<Rightarrow> bool \<Rightarrow> error + 'r"
  export_bundle :: "(string \<rightharpoonup> 'f) \<Rightarrow> 'r \<Rightarrow> error + (string \<rightharpoonup> bytes)"
  from_saved_model :: "(string \<rightharpoonup> bytes) \<Rightarrow> error + 'c"
  convert :: "'c \<Rightarrow> optimize list \<Rightarrow> error + bytes"
  rmtree_deletes_file :: bool

record 'c converter =
  saved_model :: 'c
  optimizations :: "optimize list"

subsection \<open>Sequencing\<close>

definition bindS ::
  "('w \<Rightarrow> 'w \<times> (failure + 'a)) \<Rightarrow> ('a \<Rightarrow> 'w \<Rightarrow> 'w \<times> (failure + 'b)) \<Rightarrow> 'w \<Rightarrow> 'w \<times> (failure + 'b)"
where
  "bindS m k w = (case m w of (w', Inl e) \<Rightarrow> (w', Inl e) | (w', Inr a) \<Rightarrow> k a w')"

definition raise_at :: "nat \<Rightarrow> error + 'a \<Rightarrow> failure + 'a" where
  "raise_at l r = (case r of Inl e \<Rightarrow> Inl (l, e) | Inr a \<Rightarrow> Inr a)"

definition log :: "event \<Rightarrow> 'f world \<Rightarrow> 'f world" where
  "log e w = w\<lparr>calls := calls w @ [e]\<rparr>"

definition new_calls :: "'f world \<Rightarrow> 'f world \<Rightarrow> event list" where
  "new_calls w w' = drop (length (calls w)) (calls w')"


subsection \<open>The file system\<close>

text \<open>
  Paths are the strings the script uses. \<open>under d p\<close>: the path \<open>p\<close> is \<open>d\<close> itself or
  lies below the directory \<open>d\<close>.
\<close>

definition under :: "string \<Rightarrow> string \<Rightarrow> bool" where
  "under d p = (p = d \<or> prefix (d @ ''/'') p)"

definition path_exists :: "filesystem \<Rightarrow> string \<Rightarrow> bool" where
  "path_exists fs p = (fs p \<noteq> None)"

definition remove_tree :: "string \<Rightarrow> filesystem \<Rightarrow> filesystem" where
  "remove_tree d fs = (\<lambda>p. if under d p then None else fs p)"

definition rmtree :: "bool \<Rightarrow> filesystem \<Rightarrow> string \<Rightarrow> error + filesystem" where
  "rmtree deletes_file fs d =
     (case fs d of
        None \<Rightarrow> Inl (FileNotFoundError d)
      | Some Dir \<Rightarrow> Inr (remove_tree d fs)
      | Some (File b) \<Rightarrow>
          if deletes_file then Inr (remove_tree d fs) else Inl (LibraryError d))"

text \<open>The files of the directory \<open>d\<close>, by their names relative to it.\<close>

definition read_dir :: "filesystem \<Rightarrow> string \<Rightarrow> (string \<rightharpoonup> bytes)" where
  "read_dir fs d = (\<lambda>n. case fs (d @ ''/'' @ n) of Some (File b) \<Rightarrow> Some b | _ \<Rightarrow> None)"

text \<open>
  Writing a bundle into \<open>d\<close> creates the directory and the bundle's files; a file that
  is already below \<open>d\<close> and is not in the bundle stays where it is.
\<close>

definition write_bundle :: "string \<Rightarrow> (string \<rightharpoonup> bytes) \<Rightarrow> filesystem \<Rightarrow> filesystem" where
  "write_bundle d B fs =
     (\<lambda>p. if p = d then Some Dir
          else if prefix (d @ ''/'') p then
            (case B (drop (length d + 1) p) of Some b \<Rightarrow> Some (File b) | None \<Rightarrow> fs p)
          else fs p)"

definition open_wb :: "filesystem \<Rightarrow> string \<Rightarrow> error + filesystem" where
  "open_wb fs p =
     (case fs p of
        Some Dir \<Rightarrow> Inl (IsADirectoryError p)
      | _ \<Rightarrow> Inr (fs(p \<mapsto> File [])))"

definition onnx_load :: "('f, 'm, 'r, 'c) libs \<Rightarrow> filesystem \<Rightarrow> string \<Rightarrow> error + 'm" where
  "onnx_load L fs p =
     (case fs p of
        None \<Rightarrow> Inl (FileNotFoundError p)
      | Some Dir \<Rightarrow> Inl (IsADirectoryError p)
      | Some (File b) \<Rightarrow> parse_model L b)"

subsection \<open>The statements\<close>

text \<open>\<^verbatim>\<open>tf.<n> = tf.math.<n>\<close> at line \<open>l\<close>: the right-hand side is looked up first.\<close>

definition rebind :: "nat \<Rightarrow> string \<Rightarrow> 'f world \<Rightarrow> 'f world \<times> (failure + unit)" where
  "rebind l n w =
     (case tf_math w n of
        None \<Rightarrow> (w, Inl (l, AttributeError n))
      | Some f \<Rightarrow> (log (SetAttr n) (w\<lparr>tf_attrs := (tf_attrs w)(n \<mapsto> f)\<rparr>), Inr ()))"

text \<open>Lines 7 to 11.\<close>

definition shim :: "'f world \<Rightarrow> 'f world \<times> (failure + unit)" where
  "shim =
     bindS (rebind 7 ''ceil'') (\<lambda>_.
     bindS (rebind 8 ''floor'') (\<lambda>_.
     bindS (rebind 9 ''abs'') (\<lambda>_.
     bindS (rebind 10 ''sin'') (\<lambda>_.
     rebind 11 ''cos''))))"

text \<open>Line 15.\<close>

definition import_prepare ::
  "('f, 'm, 'r, 'c) libs \<Rightarrow> 'f world \<Rightarrow> 'f world \<times> (failure + unit)" where
  "import_prepare L w =
     (log Import_backend w,
      case import_backend L (tf_attrs w) of Some e \<Rightarrow> Inl (15, e) | None \<Rightarrow> Inr ())"

definition in_path :: string where
  "in_path = ''app/src/main/cpp/llama.cpp/build/gemma3nlu.onnx''"

definition export_dir :: string where
  "export_dir = ''app/src/main/assets/models/gemma3nlu_saved_model''"

definition out_path :: string where
  "out_path = ''app/src/main/assets/models/gemma3nlu.tflite''"

text \<open>Line 19.\<close>

definition load_call ::
  "('f, 'm, 'r, 'c) libs \<Rightarrow> string \<Rightarrow> 'f world \<Rightarrow> 'f world \<times> (failure + 'm)" where
  "load_call L p w = (log (Onnx_load p) w, raise_at 19 (onnx_load L (files w) p))"

text \<open>Line 22.\<close>

definition prepare_call ::
  "('f, 'm, 'r, 'c) libs \<Rightarrow> 'm \<Rightarrow> bool \<Rightarrow> 'f world \<Rightarrow> 'f world \<times> (failure + 'r)" where
  "prepare_call L m strict w =
     (log (Prepare strict) w, raise_at 22 (prepare L (tf_attrs w) m strict))"

text \<open>Lines 24 and 25.\<close>

definition rmtree_call ::
  "('f, 'm, 'r, 'c) libs \<Rightarrow> string \<Rightarrow> 'f world \<Rightarrow> 'f world \<times> (failure + unit)" where
  "rmtree_call L d w =
     (case rmtree (rmtree_deletes_file L) (files w) d of
        Inl e \<Rightarrow> (log (Rmtree d) w, Inl (25, e))
      | Inr fs \<Rightarrow> (log (Rmtree d) (w\<lparr>files := fs\<rparr>), Inr ()))"

definition clean ::
  "('f, 'm, 'r, 'c) libs \<Rightarrow> string \<Rightarrow> 'f world \<Rightarrow> 'f world \<times> (failure + unit)" where
  "clean L d w =
     (if path_exists (files w) d then rmtree_call L d (log (Path_exists d) w)
      else (log (Path_exists d) w, Inr ()))"

text \<open>Line 26.\<close>

definition export_graph_call ::
  "('f, 'm, 'r, 'c) libs \<Rightarrow> 'r \<Rightarrow> string \<Rightarrow> 'f world \<Rightarrow> 'f world \<times> (failure + unit)" where
  "export_graph_call L rep d w =
     (case export_bundle L (tf_attrs w) rep of
        Inl e \<Rightarrow> (log (Export_graph d) w, Inl (26, e))
      | Inr B \<Rightarrow> (log (Export_graph d) (w\<lparr>files := write_bundle d B (files w)\<rparr>), Inr ()))"

text \<open>Line 29: a new converter has no optimizations set.\<close>

definition from_saved_model_call ::
  "('f, 'm, 'r, 'c) libs \<Rightarrow> string \<Rightarrow> 'f world \<Rightarrow> 'f world \<times> (failure + 'c converter)" where
  "from_saved_model_call L d w =
     (log (From_saved_model d) w,
      case from_saved_model L (read_dir (files w) d) of
        Inl e \<Rightarrow> Inl (29, e)
      | Inr c \<Rightarrow> Inr \<lparr>saved_model = c, optimizations = []\<rparr>)"

text \<open>Line 31.\<close>

definition convert_call ::
  "('f, 'm, 'r, 'c) libs \<Rightarrow> 'c converter \<Rightarrow> 'f world \<Rightarrow> 'f world \<times> (failure + bytes)" where
  "convert_call L conv w =
     (log (Convert (optimizations conv)) w,
      raise_at 31 (convert L (saved_model conv) (optimizations conv)))"

text \<open>
  Lines 35 and 36: \<^verbatim>\<open>open(p, "wb")\<close> truncates or creates the file, \<^verbatim>\<open>write\<close> puts the
  bytes in it and leaving the \<^verbatim>\<open>with\<close> block closes it. The directory that holds
  \<open>out_path\<close> also holds \<open>export_dir\<close>, which exists by then.
\<close>

definition write_file ::
  "string \<Rightarrow> bytes \<Rightarrow> 'f world \<Rightarrow> 'f world \<times> (failure + unit)" where
  "write_file p b w =
     (case open_wb (files w) p of
        Inl e \<Rightarrow> (log (Open_wb p) w, Inl (35, e))
      | Inr fs \<Rightarrow>
          (log (Write_bytes p b) (log (Open_wb p) (w\<lparr>files := fs(p \<mapsto> File b)\<rparr>)), Inr ()))"

text \<open>
  Line 38: \<^verbatim>\<open>print\<close> joins its arguments with a space. The first argument starts with
  the check mark U+2705, three bytes in UTF-8.
\<close>

fun join_space :: "string list \<Rightarrow> string" where
  "join_space [] = []"
| "join_space [s] = s"
| "join_space (s # t # ss) = s @ '' '' @ join_space (t # ss)"

definition wrote_msg :: string where
  "wrote_msg = [CHR 0xE2, CHR 0x9C, CHR 0x85] @ '' Wrote TFLite model to''"

definition print_call :: "string list \<Rightarrow> 'f world \<Rightarrow> 'f world \<times> (failure + unit)" where
  "print_call args w =
     (log (Print (join_space args)) (w\<lparr>stdout := stdout w @ [join_space args]\<rparr>), Inr ())"

subsection \<open>The script\<close>

definition run :: "('f, 'm, 'r, 'c) libs \<Rightarrow> 'f world \<Rightarrow> 'f world \<times> (failure + unit)" where
  "run L =
     bindS shim (\<lambda>_.
     bindS (import_prepare L) (\<lambda>_.
     bindS (load_call L in_path) (\<lambda>onnx_model.
     bindS (prepare_call L onnx_model False) (\<lambda>tf_rep.
     bindS (clean L export_dir) (\<lambda>_.
     bindS (export_graph_call L tf_rep export_dir) (\<lambda>_.
     bindS (from_saved_model_call L export_dir) (\<lambda>converter.
     bindS (convert_call L (converter\<lparr>optimizations := [DEFAULT]\<rparr>)) (\<lambda>tflite_model.
     bindS (write_file out_path tflite_model) (\<lambda>_.
     print_call [wrote_msg, out_path])))))))))"

subsection \<open>Descriptions of the run\<close>

text \<open>
  The rest of the theory describes what the script does in closed form. The statements
  after the shim, lines 15 to 38:
\<close>

definition after_shim :: "('f, 'm, 'r, 'c) libs \<Rightarrow> 'f world \<Rightarrow> 'f world \<times> (failure + unit)" where
  "after_shim L =
     bindS (import_prepare L) (\<lambda>_.
     bindS (load_call L in_path) (\<lambda>onnx_model.
     bindS (prepare_call L onnx_model False) (\<lambda>tf_rep.
     bindS (clean L export_dir) (\<lambda>_.
     bindS (export_graph_call L tf_rep export_dir) (\<lambda>_.
     bindS (from_saved_model_call L export_dir) (\<lambda>converter.
     bindS (convert_call L (converter\<lparr>optimizations := [DEFAULT]\<rparr>)) (\<lambda>tflite_model.
     bindS (write_file out_path tflite_model) (\<lambda>_.
     print_call [wrote_msg, out_path]))))))))"

text \<open>The attributes of \<^verbatim>\<open>tf\<close> once the five assignments have been made.\<close>

definition patched :: "'f world \<Rightarrow> (string \<rightharpoonup> 'f)" where
  "patched w = (\<lambda>n. if n \<in> {''ceil'', ''floor'', ''abs'', ''sin'', ''cos''} then tf_math w n else tf_attrs w n)"

definition shim_events :: "event list" where
  "shim_events = [SetAttr ''ceil'', SetAttr ''floor'', SetAttr ''abs'', SetAttr ''sin'', SetAttr ''cos'']"

text \<open>The file system after lines 24 and 25, when they raise nothing.\<close>

definition cleaned :: "filesystem \<Rightarrow> string \<Rightarrow> filesystem" where
  "cleaned fs d = (if path_exists fs d then remove_tree d fs else fs)"

text \<open>The history of a run that ends at line 38, where \<open>b\<close> are the bytes written.\<close>

definition success_events :: "filesystem \<Rightarrow> bytes \<Rightarrow> event list" where
  "success_events fs b =
     shim_events @ [Import_backend, Onnx_load in_path, Prepare False, Path_exists export_dir]
     @ (if path_exists fs export_dir then [Rmtree export_dir] else [])
     @ [Export_graph export_dir, From_saved_model export_dir, Convert [DEFAULT],
        Open_wb out_path, Write_bytes out_path b, Print (join_space [wrote_msg, out_path])]"

text \<open>The history of a run whose traceback names line \<open>l\<close>.\<close>

definition failure_events :: "nat \<Rightarrow> filesystem \<Rightarrow> event list" where
  "failure_events l fs =
     (if l = 15 then [Import_backend]
      else if l = 19 then [Import_backend, Onnx_load in_path]
      else if l = 22 then [Import_backend, Onnx_load in_path, Prepare False]
      else
        [Import_backend, Onnx_load in_path, Prepare False, Path_exists export_dir]
        @ (if path_exists fs export_dir then [Rmtree export_dir] else [])
        @ (if l = 25 then []
           else if l = 26 then [Export_graph export_dir]
           else if l = 29 then [Export_graph export_dir, From_saved_model export_dir]
           else if l = 31 then
             [Export_graph export_dir, From_saved_model export_dir, Convert [DEFAULT]]
           else
             [Export_graph export_dir, From_saved_model export_dir, Convert [DEFAULT],
              Open_wb out_path]))"

definition run_failure_events :: "nat \<Rightarrow> filesystem \<Rightarrow> event list" where
  "run_failure_events l fs =
     (if l \<le> 11 then take (l - 7) shim_events else shim_events @ failure_events l fs)"

text \<open>
  A directory that does not exist has nothing below it. The map from paths to nodes does
  not enforce this by itself; where a statement needs it for the export directory, it
  assumes \<open>nothing_below_missing\<close>.
\<close>

definition nothing_below_missing :: "filesystem \<Rightarrow> string \<Rightarrow> bool" where
  "nothing_below_missing fs d = (fs d = None \<longrightarrow> (\<forall>p. under d p \<longrightarrow> fs p = None))"

subsection \<open>Sample inputs\<close>

text \<open>
  Libraries that always succeed: the model is the bytes of its file, the bundle is one
  file holding it, and the converted model is those bytes after a one-byte header.
\<close>

definition sample_libs :: "(nat, bytes, bytes, bytes) libs" where
  "sample_libs =
     \<lparr>import_backend = (\<lambda>_. None),
      parse_model = (\<lambda>b. Inr b),
      prepare = (\<lambda>_ m _. Inr m),
      export_bundle = (\<lambda>_ r. Inr [''saved_model.pb'' \<mapsto> r]),
      from_saved_model =
        (\<lambda>B. case B ''saved_model.pb'' of
               None \<Rightarrow> Inl (LibraryError ''no saved model'')
             | Some b \<Rightarrow> Inr b),
      convert = (\<lambda>c _. Inr (''q'' @ c)),
      rmtree_deletes_file = True\<rparr>"

text \<open>The same libraries with a converter that raises.\<close>

definition failing_convert_libs :: "(nat, bytes, bytes, bytes) libs" where
  "failing_convert_libs = sample_libs\<lparr>convert := (\<lambda>_ _. Inl (LibraryError ''quantize''))\<rparr>"

text \<open>A first run: the model file is there, nothing else is.\<close>

definition fresh_world :: "nat world" where
  "fresh_world =
     \<lparr>tf_attrs = Map.empty,
      tf_math = [''ceil'' \<mapsto> 1, ''floor'' \<mapsto> 2, ''abs'' \<mapsto> 3, ''sin'' \<mapsto> 4, ''cos'' \<mapsto> 5],
      files = [in_path \<mapsto> File ''m''],
      stdout = [],
      calls = []\<rparr>"

text \<open>No model file.\<close>

definition no_input_world :: "nat world" where
  "no_input_world = fresh_world\<lparr>files := Map.empty\<rparr>"

text \<open>An earlier run has left an export directory with a file in it, and an artifact.\<close>

definition stale_world :: "nat world" where
  "stale_world =
     fresh_world\<lparr>files :=
       [in_path \<mapsto> File ''m'',
        export_dir \<mapsto> Dir,
        export_dir @ ''/stale.bin'' \<mapsto> File ''old'',
        out_path \<mapsto> File ''old artifact'']\<rparr>"

text \<open>A plain file stands where the export directory is to be.\<close>

definition file_at_export_dir_world :: "nat world" where
  "file_at_export_dir_world =
     fresh_world\<lparr>files := [in_path \<mapsto> File ''m'', export_dir \<mapsto> File ''x'']\<rparr>"

section \<open>Properties\<close>

subsection \<open>The steps, one by one\<close>

lemma paths [simp]:
  "\<not> under export_dir out_path" "\<not> under export_dir in_path" "in_path \<noteq> out_path"
  "out_path \<noteq> export_dir" "in_path \<noteq> export_dir" "out_path \<noteq> in_path"
  by (simp_all add: under_def export_dir_def out_path_def in_path_def)

lemma shim_success:
  assumes "snd (shim w) = Inr ()"
  shows "shim w = (w\<lparr>tf_attrs := patched w, calls := calls w @ shim_events\<rparr>, Inr ())"
    and "tf_math w ''ceil'' \<noteq> None" "tf_math w ''floor'' \<noteq> None" "tf_math w ''abs'' \<noteq> None"
      "tf_math w ''sin'' \<noteq> None" "tf_math w ''cos'' \<noteq> None"
  using assms
  by (auto simp: shim_def bindS_def rebind_def log_def patched_def shim_events_def fun_eq_iff split: option.splits)

lemma shim_successI:
  assumes "tf_math w ''ceil'' \<noteq> None" "tf_math w ''floor'' \<noteq> None" "tf_math w ''abs'' \<noteq> None"
      "tf_math w ''sin'' \<noteq> None" "tf_math w ''cos'' \<noteq> None"
  shows "shim w = (w\<lparr>tf_attrs := patched w, calls := calls w @ shim_events\<rparr>, Inr ())"
  using assms
  by (auto simp: shim_def bindS_def rebind_def log_def patched_def shim_events_def fun_eq_iff split: option.splits)

lemma run_after_shim: "run L w = (case shim w of (w1, Inl e) \<Rightarrow> (w1, Inl e) | (w1, Inr _) \<Rightarrow> after_shim L w1)"
  unfolding run_def after_shim_def by (simp add: bindS_def[where m = shim])

lemma bindS_Inr_iff:
  "bindS m k w = (w2, Inr b) \<longleftrightarrow> (\<exists>w1 a. m w = (w1, Inr a) \<and> k a w1 = (w2, Inr b))"
  by (auto simp: bindS_def split: prod.splits sum.splits)

lemma import_prepare_Inr:
  "import_prepare L w = (w1, Inr u) \<longleftrightarrow> w1 = log Import_backend w \<and> import_backend L (tf_attrs w) = None"
  by (auto simp: import_prepare_def split: option.splits)

lemma load_call_Inr:
  "load_call L p w = (w1, Inr m) \<longleftrightarrow> w1 = log (Onnx_load p) w \<and> onnx_load L (files w) p = Inr m"
  by (auto simp: load_call_def raise_at_def split: sum.splits)

lemma prepare_call_Inr:
  "prepare_call L m s w = (w1, Inr r) \<longleftrightarrow> w1 = log (Prepare s) w \<and> prepare L (tf_attrs w) m s = Inr r"
  by (auto simp: prepare_call_def raise_at_def split: sum.splits)

lemma clean_Inr:
  "clean L d w = (w1, Inr u) \<longleftrightarrow>
     (\<forall>x. files w d = Some (File x) \<longrightarrow> rmtree_deletes_file L) \<and>
     w1 = w\<lparr>files := cleaned (files w) d,
            calls := calls w @ Path_exists d # (if path_exists (files w) d then [Rmtree d] else [])\<rparr>"
  by (auto simp: clean_def rmtree_call_def rmtree_def cleaned_def path_exists_def log_def
           split: option.splits node.splits sum.splits)

lemma export_graph_call_Inr:
  "export_graph_call L r d w = (w1, Inr u) \<longleftrightarrow>
     (\<exists>B. export_bundle L (tf_attrs w) r = Inr B \<and>
          w1 = log (Export_graph d) (w\<lparr>files := write_bundle d B (files w)\<rparr>))"
  by (auto simp: export_graph_call_def split: sum.splits)

lemma from_saved_model_call_Inr:
  "from_saved_model_call L d w = (w1, Inr cv) \<longleftrightarrow>
     w1 = log (From_saved_model d) w \<and>
     (\<exists>c. from_saved_model L (read_dir (files w) d) = Inr c \<and> cv = \<lparr>saved_model = c, optimizations = []\<rparr>)"
  by (auto simp: from_saved_model_call_def split: sum.splits)

lemma convert_call_Inr:
  "convert_call L cv w = (w1, Inr b) \<longleftrightarrow>
     w1 = log (Convert (optimizations cv)) w \<and> convert L (saved_model cv) (optimizations cv) = Inr b"
  by (auto simp: convert_call_def raise_at_def split: sum.splits)

lemma write_file_Inr:
  "write_file p b w = (w1, Inr u) \<longleftrightarrow>
     files w p \<noteq> Some Dir \<and>
     w1 = w\<lparr>files := (files w)(p \<mapsto> File b), calls := calls w @ [Open_wb p, Write_bytes p b]\<rparr>"
  by (auto simp: write_file_def open_wb_def log_def split: option.splits node.splits sum.splits)

lemma print_call_Inr:
  "print_call args w = (w1, Inr u) \<longleftrightarrow>
     w1 = w\<lparr>stdout := stdout w @ [join_space args], calls := calls w @ [Print (join_space args)]\<rparr>"
  by (auto simp: print_call_def log_def)

lemmas step_Inr = bindS_Inr_iff import_prepare_Inr load_call_Inr prepare_call_Inr clean_Inr
  export_graph_call_Inr from_saved_model_call_Inr convert_call_Inr write_file_Inr print_call_Inr

lemma cleaned_out_path [simp]: "cleaned fs export_dir out_path = fs out_path"
  by (simp add: cleaned_def remove_tree_def)

lemma write_bundle_out_path [simp]: "write_bundle export_dir B fs out_path = fs out_path"
  using paths(1) by (simp add: write_bundle_def under_def)

lemma after_shim_success:
  "after_shim L w = (w', Inr ()) \<longleftrightarrow> (\<exists>m r B c b.
      import_backend L (tf_attrs w) = None
    \<and> onnx_load L (files w) in_path = Inr m
    \<and> prepare L (tf_attrs w) m False = Inr r
    \<and> (\<forall>x. files w export_dir = Some (File x) \<longrightarrow> rmtree_deletes_file L)
    \<and> export_bundle L (tf_attrs w) r = Inr B
    \<and> from_saved_model L (read_dir (write_bundle export_dir B (cleaned (files w) export_dir)) export_dir) = Inr c
    \<and> convert L c [DEFAULT] = Inr b
    \<and> files w out_path \<noteq> Some Dir
    \<and> w' = w\<lparr>files := (write_bundle export_dir B (cleaned (files w) export_dir))(out_path \<mapsto> File b),
          stdout := stdout w @ [join_space [wrote_msg, out_path]],
          calls := calls w @ drop 5 (success_events (files w) b)\<rparr>)"
  unfolding after_shim_def
  by (auto simp add: step_Inr log_def success_events_def shim_events_def simp del: join_space.simps)

lemma bindS_Inl_iff:
  "bindS m k w = (w2, Inl e) \<longleftrightarrow>
     m w = (w2, Inl e) \<or> (\<exists>w1 a. m w = (w1, Inr a) \<and> k a w1 = (w2, Inl e))"
  by (auto simp: bindS_def split: prod.splits sum.splits)

lemma import_prepare_Inl:
  "import_prepare L w = (w1, Inl le) \<longleftrightarrow>
     w1 = log Import_backend w \<and> (\<exists>e. import_backend L (tf_attrs w) = Some e \<and> le = (15, e))"
  by (auto simp: import_prepare_def split: option.splits)

lemma load_call_Inl:
  "load_call L p w = (w1, Inl le) \<longleftrightarrow>
     w1 = log (Onnx_load p) w \<and> (\<exists>e. onnx_load L (files w) p = Inl e \<and> le = (19, e))"
  by (auto simp: load_call_def raise_at_def split: sum.splits)

lemma prepare_call_Inl:
  "prepare_call L m s w = (w1, Inl le) \<longleftrightarrow>
     w1 = log (Prepare s) w \<and> (\<exists>e. prepare L (tf_attrs w) m s = Inl e \<and> le = (22, e))"
  by (auto simp: prepare_call_def raise_at_def split: sum.splits)

lemma clean_Inl:
  "clean L d w = (w1, Inl le) \<longleftrightarrow>
     (\<exists>x. files w d = Some (File x)) \<and> \<not> rmtree_deletes_file L \<and>
     w1 = w\<lparr>calls := calls w @ [Path_exists d, Rmtree d]\<rparr> \<and> le = (25, LibraryError d)"
  by (auto simp: clean_def rmtree_call_def rmtree_def path_exists_def log_def
           split: option.splits node.splits sum.splits)

lemma export_graph_call_Inl:
  "export_graph_call L r d w = (w1, Inl le) \<longleftrightarrow>
     w1 = log (Export_graph d) w \<and> (\<exists>e. export_bundle L (tf_attrs w) r = Inl e \<and> le = (26, e))"
  by (auto simp: export_graph_call_def split: sum.splits)

lemma from_saved_model_call_Inl:
  "from_saved_model_call L d w = (w1, Inl le) \<longleftrightarrow>
     w1 = log (From_saved_model d) w \<and>
     (\<exists>e. from_saved_model L (read_dir (files w) d) = Inl e \<and> le = (29, e))"
  by (auto simp: from_saved_model_call_def split: sum.splits)

lemma convert_call_Inl:
  "convert_call L cv w = (w1, Inl le) \<longleftrightarrow>
     w1 = log (Convert (optimizations cv)) w \<and>
     (\<exists>e. convert L (saved_model cv) (optimizations cv) = Inl e \<and> le = (31, e))"
  by (auto simp: convert_call_def raise_at_def split: sum.splits)

lemma write_file_Inl:
  "write_file p b w = (w1, Inl le) \<longleftrightarrow>
     files w p = Some Dir \<and> w1 = log (Open_wb p) w \<and> le = (35, IsADirectoryError p)"
  by (auto simp: write_file_def open_wb_def log_def split: option.splits node.splits sum.splits)

lemma print_call_Inl: "print_call args w = (w1, Inl le) \<longleftrightarrow> False"
  by (simp add: print_call_def)

lemmas step_Inl = bindS_Inl_iff import_prepare_Inl load_call_Inl prepare_call_Inl clean_Inl
  export_graph_call_Inl from_saved_model_call_Inl convert_call_Inl write_file_Inl print_call_Inl

lemma after_shim_failure:
  assumes "after_shim L w = (w', Inl (l, e))"
  shows "l \<in> {15, 19, 22, 25, 26, 29, 31, 35}"
    and "tf_attrs w' = tf_attrs w" and "tf_math w' = tf_math w" and "stdout w' = stdout w"
    and "calls w' = calls w @ failure_events l (files w)"
    and "files w' out_path = files w out_path"
    and "l \<le> 25 \<Longrightarrow> files w' = files w"
    and "22 \<le> l \<Longrightarrow> \<exists>m. onnx_load L (files w) in_path = Inr m"
    and "l = 31 \<Longrightarrow> \<exists>c. convert L c [DEFAULT] = Inl e"
    and "l = 19 \<Longrightarrow> onnx_load L (files w) in_path = Inl e"
  using assms unfolding after_shim_def
  by (auto simp add: step_Inl step_Inr log_def failure_events_def path_exists_def
           simp del: join_space.simps)

lemma shim_failure:
  assumes "shim w = (w', Inl (l, e))"
  shows "l \<in> {7, 8, 9, 10, 11}"
    and "tf_math w' = tf_math w" and "files w' = files w" and "stdout w' = stdout w"
    and "calls w' = calls w @ take (l - 7) shim_events"
    and "n \<notin> {''ceil'', ''floor'', ''abs'', ''sin'', ''cos''} \<Longrightarrow> tf_attrs w' n = tf_attrs w n"
  using assms
  by (auto simp: shim_def bindS_def rebind_def log_def shim_events_def split: option.splits)

lemma run_success:
  "run L w = (w', Inr ()) \<longleftrightarrow>
     tf_math w ''ceil'' \<noteq> None \<and> tf_math w ''floor'' \<noteq> None \<and> tf_math w ''abs'' \<noteq> None \<and>
     tf_math w ''sin'' \<noteq> None \<and> tf_math w ''cos'' \<noteq> None \<and>
     (\<exists>m r B c b.
        import_backend L (patched w) = None
      \<and> onnx_load L (files w) in_path = Inr m
      \<and> prepare L (patched w) m False = Inr r
      \<and> (\<forall>x. files w export_dir = Some (File x) \<longrightarrow> rmtree_deletes_file L)
      \<and> export_bundle L (patched w) r = Inr B
      \<and> from_saved_model L (read_dir (write_bundle export_dir B (cleaned (files w) export_dir)) export_dir) = Inr c
      \<and> convert L c [DEFAULT] = Inr b
      \<and> files w out_path \<noteq> Some Dir
      \<and> w' = w\<lparr>tf_attrs := patched w,
            files := (write_bundle export_dir B (cleaned (files w) export_dir))(out_path \<mapsto> File b),
            stdout := stdout w @ [join_space [wrote_msg, out_path]],
            calls := calls w @ success_events (files w) b\<rparr>)"
  (is "?lhs \<longleftrightarrow> ?rhs")
proof
  assume l: ?lhs
  obtain w1 r1 where s: "shim w = (w1, r1)" by fastforce
  with l have r1: "r1 = Inr ()" by (cases r1) (auto simp: run_after_shim)
  with s have ok: "snd (shim w) = Inr ()" by simp
  note ss = shim_success[OF ok]
  from l ss(1) have "after_shim L (w\<lparr>tf_attrs := patched w, calls := calls w @ shim_events\<rparr>) = (w', Inr ())"
    by (simp add: run_after_shim)
  then show ?rhs using ss(2-)
    by (auto simp: after_shim_success success_events_def shim_events_def simp del: join_space.simps)
next
  assume r: ?rhs
  then have "shim w = (w\<lparr>tf_attrs := patched w, calls := calls w @ shim_events\<rparr>, Inr ())"
    by (intro shim_successI) blast+
  moreover from r have "after_shim L (w\<lparr>tf_attrs := patched w, calls := calls w @ shim_events\<rparr>) = (w', Inr ())"
    by (auto simp: after_shim_success success_events_def shim_events_def simp del: join_space.simps)
  ultimately show ?lhs by (simp add: run_after_shim)
qed

lemma run_failure:
  assumes "run L w = (w', Inl (l, e))"
  shows "l \<in> {7, 8, 9, 10, 11, 15, 19, 22, 25, 26, 29, 31, 35}"
    and "tf_math w' = tf_math w" and "stdout w' = stdout w"
    and "calls w' = calls w @ run_failure_events l (files w)"
    and "files w' out_path = files w out_path"
    and "l \<le> 25 \<Longrightarrow> files w' = files w"
    and "22 \<le> l \<Longrightarrow> \<exists>m. onnx_load L (files w) in_path = Inr m"
    and "l = 31 \<Longrightarrow> \<exists>c. convert L c [DEFAULT] = Inl e"
    and "l = 19 \<Longrightarrow> onnx_load L (files w) in_path = Inl e"
    and "15 \<le> l \<Longrightarrow> shim w = (w\<lparr>tf_attrs := patched w, calls := calls w @ shim_events\<rparr>, Inr ())"
    and "tf_attrs w' = tf_attrs (fst (shim w))"
proof -
  obtain w1 r1 where s: "shim w = (w1, r1)" by fastforce
  define P where "P \<longleftrightarrow> l \<in> {7, 8, 9, 10, 11, 15, 19, 22, 25, 26, 29, 31, 35}
     \<and> tf_math w' = tf_math w \<and> stdout w' = stdout w
     \<and> calls w' = calls w @ run_failure_events l (files w)
     \<and> files w' out_path = files w out_path
     \<and> (l \<le> 25 \<longrightarrow> files w' = files w)
     \<and> (22 \<le> l \<longrightarrow> (\<exists>m. onnx_load L (files w) in_path = Inr m))
     \<and> (l = 31 \<longrightarrow> (\<exists>c. convert L c [DEFAULT] = Inl e))
     \<and> (l = 19 \<longrightarrow> onnx_load L (files w) in_path = Inl e)
     \<and> (15 \<le> l \<longrightarrow> shim w = (w\<lparr>tf_attrs := patched w, calls := calls w @ shim_events\<rparr>, Inr ()))
     \<and> tf_attrs w' = tf_attrs (fst (shim w))"
  have P
  proof (cases r1)
    case (Inl le)
    with s assms have f: "shim w = (w', Inl (l, e))" by (simp add: run_after_shim)
    note sf = shim_failure[OF f]
    from sf(1) have l: "l \<le> 11" "\<not> 15 \<le> l" "\<not> 22 \<le> l" "l \<noteq> 31" "l \<noteq> 19" "l \<le> 25"
      by auto
    from sf(1) have "l \<in> {7, 8, 9, 10, 11, 15, 19, 22, 25, 26, 29, 31, 35}" by blast
    moreover have "calls w' = calls w @ run_failure_events l (files w)"
      using sf(5) l(1) by (simp add: run_failure_events_def)
    moreover have "tf_attrs w' = tf_attrs (fst (shim w))" using f by simp
    ultimately show ?thesis unfolding P_def using sf(2,3,4) l by simp
  next
    case (Inr u)
    with s have s': "shim w = (w\<lparr>tf_attrs := patched w, calls := calls w @ shim_events\<rparr>, Inr ())"
      using shim_success(1)[of w] by simp
    with assms have "after_shim L (w\<lparr>tf_attrs := patched w, calls := calls w @ shim_events\<rparr>) = (w', Inl (l, e))"
      by (simp add: run_after_shim)
    note rf = after_shim_failure[OF this]
    from rf(1) have l: "\<not> l \<le> 11" by auto
    have "calls w' = calls w @ run_failure_events l (files w)"
      using rf(5) l by (simp add: run_failure_events_def)
    moreover have "tf_attrs w' = tf_attrs (fst (shim w))" using rf(2) s' by simp
    moreover have "l \<in> {7, 8, 9, 10, 11, 15, 19, 22, 25, 26, 29, 31, 35}" using rf(1) by blast
    ultimately show ?thesis unfolding P_def using rf(3,4,6,7,8,9,10) s' by simp
  qed
  then show "l \<in> {7, 8, 9, 10, 11, 15, 19, 22, 25, 26, 29, 31, 35}"
    and "tf_math w' = tf_math w" and "stdout w' = stdout w"
    and "calls w' = calls w @ run_failure_events l (files w)"
    and "files w' out_path = files w out_path"
    and "l \<le> 25 \<Longrightarrow> files w' = files w"
    and "22 \<le> l \<Longrightarrow> \<exists>m. onnx_load L (files w) in_path = Inr m"
    and "l = 31 \<Longrightarrow> \<exists>c. convert L c [DEFAULT] = Inl e"
    and "l = 19 \<Longrightarrow> onnx_load L (files w) in_path = Inl e"
    and "15 \<le> l \<Longrightarrow> shim w = (w\<lparr>tf_attrs := patched w, calls := calls w @ shim_events\<rparr>, Inr ())"
    and "tf_attrs w' = tf_attrs (fst (shim w))"
    unfolding P_def by blast+
qed

lemma shim_any:
  "tf_math (fst (shim w)) = tf_math w" "files (fst (shim w)) = files w"
  "stdout (fst (shim w)) = stdout w"
  "n \<notin> {''ceil'', ''floor'', ''abs'', ''sin'', ''cos''} \<Longrightarrow> tf_attrs (fst (shim w)) n = tf_attrs w n"
  "\<exists>k. calls (fst (shim w)) = calls w @ take k shim_events"
proof -
  obtain w' r where s: "shim w = (w', r)" by fastforce
  have "tf_math w' = tf_math w \<and> files w' = files w \<and> stdout w' = stdout w
      \<and> (n \<notin> {''ceil'', ''floor'', ''abs'', ''sin'', ''cos''} \<longrightarrow> tf_attrs w' n = tf_attrs w n)
      \<and> (\<exists>k. calls w' = calls w @ take k shim_events)"
  proof (cases r)
    case (Inr u)
    with s have "snd (shim w) = Inr ()" by simp
    from shim_success(1)[OF this] s have w': "w' = w\<lparr>tf_attrs := patched w, calls := calls w @ shim_events\<rparr>"
      by simp
    have "calls w' = calls w @ take 5 shim_events" by (simp add: w' shim_events_def)
    then have "\<exists>k. calls w' = calls w @ take k shim_events" ..
    then show ?thesis by (simp add: w' patched_def)
  next
    case (Inl le)
    obtain l e where "le = (l, e)" by (cases le)
    with s Inl have f: "shim w = (w', Inl (l, e))" by simp
    note sf = shim_failure[OF f]
    from sf(5) have "\<exists>k. calls w' = calls w @ take k shim_events" ..
    with sf(2,3,4) sf(6)[of n] show ?thesis by blast
  qed
  then show "tf_math (fst (shim w)) = tf_math w" "files (fst (shim w)) = files w"
    "stdout (fst (shim w)) = stdout w"
    "n \<notin> {''ceil'', ''floor'', ''abs'', ''sin'', ''cos''} \<Longrightarrow> tf_attrs (fst (shim w)) n = tf_attrs w n"
    "\<exists>k. calls (fst (shim w)) = calls w @ take k shim_events"
    unfolding s fst_conv by blast+
qed

subsection \<open>The outcomes of a run\<close>

lemma run_cases:
  obtains (success) w' b where "run L w = (w', Inr ())" "calls w' = calls w @ success_events (files w) b"
      "tf_attrs w' = tf_attrs (fst (shim w))" "tf_math w' = tf_math w"
      "stdout w' = stdout w @ [join_space [wrote_msg, out_path]]"
    | (failure) w' l e where "run L w = (w', Inl (l, e))"
      "l \<in> {7, 8, 9, 10, 11, 15, 19, 22, 25, 26, 29, 31, 35}"
      "calls w' = calls w @ run_failure_events l (files w)"
      "tf_attrs w' = tf_attrs (fst (shim w))" "tf_math w' = tf_math w" "stdout w' = stdout w"
proof -
  obtain w' r where rw: "run L w = (w', r)" by fastforce
  show ?thesis
  proof (cases r)
    case (Inr u)
    with rw have ok: "run L w = (w', Inr ())" by simp
    from ok have m: "tf_math w ''ceil'' \<noteq> None" "tf_math w ''floor'' \<noteq> None"
      "tf_math w ''abs'' \<noteq> None" "tf_math w ''sin'' \<noteq> None" "tf_math w ''cos'' \<noteq> None"
      unfolding run_success by blast+
    from ok obtain b where c: "calls w' = calls w @ success_events (files w) b"
      and a: "tf_attrs w' = patched w" and t: "tf_math w' = tf_math w"
      and o: "stdout w' = stdout w @ [join_space [wrote_msg, out_path]]"
      unfolding run_success by (elim conjE exE) simp
    from shim_successI[OF m] a have at: "tf_attrs w' = tf_attrs (fst (shim w))" by simp
    from ok c at t o show ?thesis by (rule success)
  next
    case (Inl le)
    obtain l e where "le = (l, e)" by (cases le)
    with rw Inl have f: "run L w = (w', Inl (l, e))" by simp
    note rf = run_failure[OF f]
    from f rf(1,4,11,2,3) show ?thesis by (rule failure)
  qed
qed








subsection \<open>The export directory and the artifact\<close>

lemma below_export_dir_not_out_path [simp]: "export_dir @ CHR ''/'' # n \<noteq> out_path"
proof
  assume "export_dir @ CHR ''/'' # n = out_path"
  then have "out_path = (export_dir @ ''/'') @ n" by simp
  then have "prefix (export_dir @ ''/'') out_path" by (rule prefixI)
  with paths(1) show False by (simp add: under_def)
qed

lemma under_below [simp]: "under d (d @ CHR ''/'' # n)"
  by (simp add: under_def)

lemma read_dir_upd_out_path [simp]: "read_dir (fs(out_path \<mapsto> x)) export_dir = read_dir fs export_dir"
  by (simp add: read_dir_def fun_eq_iff)

lemma write_bundle_outside: "\<not> under d p \<Longrightarrow> write_bundle d B fs p = fs p"
  by (simp add: write_bundle_def under_def)

lemma cleaned_outside: "\<not> under d p \<Longrightarrow> cleaned fs d p = fs p"
  by (simp add: cleaned_def remove_tree_def)

lemma cleaned_below:
  "path_exists fs d \<or> nothing_below_missing fs d \<Longrightarrow> under d p \<Longrightarrow> cleaned fs d p = None"
  by (auto simp: cleaned_def remove_tree_def nothing_below_missing_def path_exists_def)

lemma write_bundle_at [simp]: "write_bundle d B fs d = Some Dir"
  by (simp add: write_bundle_def)

lemma write_bundle_below:
  "under d p \<Longrightarrow> p \<noteq> d \<Longrightarrow>
   write_bundle d B fs p =
     (case B (drop (length d + 1) p) of Some b \<Rightarrow> Some (File b) | None \<Rightarrow> fs p)"
  by (simp add: write_bundle_def under_def)

lemma read_dir_write_bundle:
  "read_dir (write_bundle d B fs) d n = (case B n of Some b \<Rightarrow> Some b | None \<Rightarrow> read_dir fs d n)"
  by (simp add: read_dir_def write_bundle_def split: option.splits)

lemma read_dir_write_bundle_clean:
  assumes "\<And>p. under d p \<Longrightarrow> fs p = None"
  shows "read_dir (write_bundle d B fs) d = B"
proof
  fix n
  have "fs (d @ CHR ''/'' # n) = None" by (rule assms) simp
  then have "read_dir fs d n = None" by (simp add: read_dir_def)
  then show "read_dir (write_bundle d B fs) d n = B n"
    by (simp add: read_dir_write_bundle split: option.splits)
qed

lemma success_events_rmtree:
  "\<not> path_exists fs export_dir \<Longrightarrow> Rmtree export_dir \<notin> set (success_events fs b)"
  "path_exists fs export_dir \<Longrightarrow>
     Rmtree export_dir \<in> set (takeWhile (\<lambda>e. e \<noteq> Export_graph export_dir) (success_events fs b))"
  by (simp_all add: success_events_def shim_events_def)

lemma run_success_export_dir:
  assumes ok: "run L w = (w', Inr ())"
    and ex: "path_exists (files w) export_dir \<or> nothing_below_missing (files w) export_dir"
  shows "\<exists>m r B. onnx_load L (files w) in_path = Inr m
        \<and> prepare L (tf_attrs w') m False = Inr r
        \<and> export_bundle L (tf_attrs w') r = Inr B
        \<and> files w' export_dir = Some Dir
        \<and> read_dir (files w') export_dir = B
        \<and> (\<forall>p. under export_dir p \<and> p \<noteq> export_dir \<longrightarrow>
              files w' p = map_option File (B (drop (length export_dir + 1) p)))"
proof -
  from ok obtain m r B b where
    ld: "onnx_load L (files w) in_path = Inr m"
    and pr: "prepare L (patched w) m False = Inr r"
    and eb: "export_bundle L (patched w) r = Inr B"
    and fw: "files w' = (write_bundle export_dir B (cleaned (files w) export_dir))(out_path \<mapsto> File b)"
    and ta: "tf_attrs w' = patched w"
    unfolding run_success by (elim conjE exE) simp
  have cl: "\<And>p. under export_dir p \<Longrightarrow> cleaned (files w) export_dir p = None"
    using ex by (simp add: cleaned_below)
  have "files w' export_dir = Some Dir" using paths(4)[symmetric] by (simp add: fw)
  moreover have "read_dir (files w') export_dir = B"
    by (simp add: fw read_dir_write_bundle_clean[OF cl])
  moreover have "files w' p = map_option File (B (drop (length export_dir + 1) p))"
    if "under export_dir p" "p \<noteq> export_dir" for p
  proof -
    from that paths(1) have "p \<noteq> out_path" by auto
    then show ?thesis using that cl[OF that(1)]
      by (simp add: fw write_bundle_below split: option.splits)
  qed
  ultimately show ?thesis using ld pr eb unfolding ta by blast
qed

lemma rerun_files:
  assumes cl: "\<And>p. under export_dir p \<Longrightarrow> F p = None"
    and f1: "F1 = (write_bundle export_dir B F)(out_path \<mapsto> File b)"
  shows "(write_bundle export_dir B (cleaned F1 export_dir))(out_path \<mapsto> File b) = F1"
proof
  fix p
  have ex: "path_exists F1 export_dir"
    using paths(4)[symmetric] by (simp add: f1 path_exists_def)
  have cl1: "\<And>q. under export_dir q \<Longrightarrow> cleaned F1 export_dir q = None"
    using ex by (simp add: cleaned_below)
  show "((write_bundle export_dir B (cleaned F1 export_dir))(out_path \<mapsto> File b)) p = F1 p"
  proof (cases "p = out_path")
    case True
    then show ?thesis by (simp add: f1)
  next
    case out: False
    show ?thesis
    proof (cases "under export_dir p")
      case False
      then show ?thesis using out
        by (simp add: write_bundle_outside cleaned_outside)
    next
      case True
      show ?thesis
      proof (cases "p = export_dir")
        case True
        then show ?thesis using out by (simp add: f1)
      next
        case False
        with True out cl[OF True] cl1[OF True] show ?thesis
          by (simp add: f1 write_bundle_below split: option.splits)
      qed
    qed
  qed
qed

lemma failure_events_rmtree:
  assumes "l \<in> {7, 8, 9, 10, 11, 15, 19, 22, 25, 26, 29, 31, 35}"
  shows "\<not> path_exists fs export_dir \<Longrightarrow> Rmtree export_dir \<notin> set (run_failure_events l fs)"
    and "path_exists fs export_dir \<Longrightarrow> Export_graph export_dir \<in> set (run_failure_events l fs) \<Longrightarrow>
     Rmtree export_dir \<in> set (takeWhile (\<lambda>e. e \<noteq> Export_graph export_dir) (run_failure_events l fs))"
  using assms
  by (auto simp: run_failure_events_def failure_events_def shim_events_def)

subsection \<open>Sample runs\<close>

lemmas eval_defs = run_def shim_def bindS_def rebind_def log_def import_prepare_def
  load_call_def prepare_call_def clean_def rmtree_call_def export_graph_call_def
  from_saved_model_call_def convert_call_def write_file_def print_call_def raise_at_def
  onnx_load_def path_exists_def rmtree_def remove_tree_def under_def write_bundle_def
  read_dir_def open_wb_def in_path_def export_dir_def out_path_def wrote_msg_def
  sample_libs_def failing_convert_libs_def fresh_world_def no_input_world_def
  stale_world_def file_at_export_dir_world_def

lemma run_fresh: "snd (run sample_libs fresh_world) = Inr ()"
  by (simp add: eval_defs)

lemma run_stale: "snd (run sample_libs stale_world) = Inr ()"
  by (simp add: eval_defs)

lemma run_no_input: "snd (run sample_libs no_input_world) = Inl (19, FileNotFoundError in_path)"
  by (simp add: eval_defs)

lemma run_failing_convert:
  "snd (run failing_convert_libs stale_world) = Inl (31, LibraryError ''quantize'')"
  by (simp add: eval_defs)

lemma run_file_at_export_dir: "snd (run sample_libs file_at_export_dir_world) = Inr ()"
  by (simp add: eval_defs)

lemma new_calls_append [simp]: "calls w' = calls w @ evs \<Longrightarrow> new_calls w w' = evs"
  by (simp add: new_calls_def)

section \<open>The claims\<close>

text \<open>
  C1. If no file exists at the input path, the run fails: the traceback names line 19 or
  an earlier line, and at line 19 the exception is the loader's \<open>FileNotFoundError\<close>.
  The file system is left as it was (so the export directory is untouched and nothing is
  written at the output path), and the history of the run holds no \<open>rmtree\<close>, no
  \<open>export_graph\<close>, no \<open>convert\<close>, no \<open>open\<close> of the output path and no write to it.
\<close>

theorem missing_input_fails_before_export:
  assumes "files w in_path = None"
  shows "(\<exists>l e. snd (run L w) = Inl (l, e) \<and> l \<le> 19 \<and> (l = 19 \<longrightarrow> e = FileNotFoundError in_path))
    \<and> files (fst (run L w)) = files w
    \<and> Rmtree export_dir \<notin> set (new_calls w (fst (run L w)))
    \<and> Export_graph export_dir \<notin> set (new_calls w (fst (run L w)))
    \<and> (\<forall>os. Convert os \<notin> set (new_calls w (fst (run L w))))
    \<and> Open_wb out_path \<notin> set (new_calls w (fst (run L w)))
    \<and> (\<forall>b. Write_bytes out_path b \<notin> set (new_calls w (fst (run L w))))"
proof -
  from assms have load: "onnx_load L (files w) in_path = Inl (FileNotFoundError in_path)"
    by (simp add: onnx_load_def)
  obtain w' r where rw: "run L w = (w', r)" by fastforce
  show ?thesis
  proof (cases r)
    case (Inr u)
    with rw load show ?thesis by (simp add: run_success)
  next
    case (Inl le)
    obtain l e where le: "le = (l, e)" by (cases le)
    with rw Inl have f: "run L w = (w', Inl (l, e))" by simp
    note rf = run_failure[OF f]
    from rf(7) load have "\<not> 22 \<le> l" by auto
    with rf(1) have l: "l \<in> {7, 8, 9, 10, 11, 15, 19}" by auto
    then have l25: "l \<le> 25" and l19: "l \<le> 19" by auto
    from rf(9) load have e: "l = 19 \<longrightarrow> e = FileNotFoundError in_path" by auto
    have ev: "new_calls w w' = run_failure_events l (files w)"
      using rf(4) by simp
    have "set (run_failure_events l (files w))
        \<subseteq> set shim_events \<union> {Import_backend, Onnx_load in_path}"
      using l by (auto simp: run_failure_events_def failure_events_def dest: in_set_takeD)
    then have "set (new_calls w w') \<subseteq> SetAttr ` UNIV \<union> {Import_backend, Onnx_load in_path}"
      unfolding ev by (auto simp: shim_events_def)
    then have "Rmtree export_dir \<notin> set (new_calls w w')"
      "Export_graph export_dir \<notin> set (new_calls w w')"
      "\<forall>os. Convert os \<notin> set (new_calls w w')"
      "Open_wb out_path \<notin> set (new_calls w w')"
      "\<forall>b. Write_bytes out_path b \<notin> set (new_calls w w')"
      by auto
    with f l19 e rf(6)[OF l25] show ?thesis by simp
  qed
qed

theorem missing_input_fails_before_export_witness:
  "files no_input_world in_path = None
   \<and> snd (run sample_libs no_input_world) = Inl (19, FileNotFoundError in_path)
   \<and> files (fst (run sample_libs no_input_world)) = files no_input_world
   \<and> Export_graph export_dir \<notin> set (new_calls no_input_world (fst (run sample_libs no_input_world)))"
  using missing_input_fails_before_export[of no_input_world sample_libs] run_no_input
  by (simp add: no_input_world_def)

text \<open>
  C9. If the run ends with a traceback at line 31 (the call of \<open>convert\<close> raised), then
  it was the converter that returned the exception, the node at the output path is what
  it was before the run, the output path was never opened, nothing was written, and the
  call of \<open>convert\<close> is the last entry of the history.
\<close>

theorem failed_convert_keeps_artifact:
  assumes "snd (run L w) = Inl (31, e)"
  shows "(\<exists>c. convert L c [DEFAULT] = Inl e)
    \<and> files (fst (run L w)) out_path = files w out_path
    \<and> Open_wb out_path \<notin> set (new_calls w (fst (run L w)))
    \<and> (\<forall>p b. Write_bytes p b \<notin> set (new_calls w (fst (run L w))))
    \<and> last (new_calls w (fst (run L w))) = Convert [DEFAULT]"
proof -
  obtain w' where f: "run L w = (w', Inl (31, e))" using assms by (cases "run L w") auto
  note rf = run_failure[OF f]
  have ev: "new_calls w w' = run_failure_events 31 (files w)"
    using rf(4) by simp
  from rf(8) rf(5) show ?thesis
    unfolding f fst_conv ev
    by (auto simp: run_failure_events_def failure_events_def shim_events_def)
qed

theorem failed_convert_keeps_artifact_witness:
  "snd (run failing_convert_libs stale_world) = Inl (31, LibraryError ''quantize'')
   \<and> files (fst (run failing_convert_libs stale_world)) out_path = Some (File ''old artifact'')
   \<and> Open_wb out_path \<notin> set (new_calls stale_world (fst (run failing_convert_libs stale_world)))"
  using failed_convert_keeps_artifact[OF run_failing_convert] run_failing_convert
  by (simp add: stale_world_def fresh_world_def out_path_def in_path_def export_dir_def)

text \<open>
  C2, as the code has it. The shim makes five assignments, not four: when all of them
  return, each of \<open>tf.ceil\<close>, \<open>tf.floor\<close>, \<open>tf.abs\<close>, \<open>tf.sin\<close> and \<open>tf.cos\<close> is
  bound and equals the attribute of the same name of \<open>tf.math\<close>, \<open>tf.math\<close> itself is
  as it was, the history holds these five assignments in this order, and no attribute
  of \<open>tf\<close> outside the five has changed.
\<close>

theorem shim_rebinds_five:
  assumes "snd (shim w) = Inr ()"
  shows "tf_attrs (fst (shim w)) ''ceil'' = tf_math (fst (shim w)) ''ceil''
    \<and> tf_attrs (fst (shim w)) ''floor'' = tf_math (fst (shim w)) ''floor''
    \<and> tf_attrs (fst (shim w)) ''abs'' = tf_math (fst (shim w)) ''abs''
    \<and> tf_attrs (fst (shim w)) ''sin'' = tf_math (fst (shim w)) ''sin''
    \<and> tf_attrs (fst (shim w)) ''cos'' = tf_math (fst (shim w)) ''cos''
    \<and> tf_attrs (fst (shim w)) ''ceil'' \<noteq> None
    \<and> tf_attrs (fst (shim w)) ''floor'' \<noteq> None
    \<and> tf_attrs (fst (shim w)) ''abs'' \<noteq> None
    \<and> tf_attrs (fst (shim w)) ''sin'' \<noteq> None
    \<and> tf_attrs (fst (shim w)) ''cos'' \<noteq> None
    \<and> tf_math (fst (shim w)) = tf_math w
    \<and> new_calls w (fst (shim w)) =
        [SetAttr ''ceil'', SetAttr ''floor'', SetAttr ''abs'', SetAttr ''sin'', SetAttr ''cos'']
    \<and> {n. tf_attrs (fst (shim w)) n \<noteq> tf_attrs w n} \<subseteq> {''ceil'', ''floor'', ''abs'', ''sin'', ''cos''}"
  using shim_success[OF assms]
  by (auto simp: patched_def shim_events_def new_calls_def)

theorem shim_rebinds_five_witness:
  "snd (shim fresh_world) = Inr ()
   \<and> tf_attrs (fst (shim fresh_world)) ''ceil'' = Some 1
   \<and> tf_attrs (fst (shim fresh_world)) ''cos'' = Some 5
   \<and> length (new_calls fresh_world (fst (shim fresh_world))) = 5"
proof -
  have ok: "snd (shim fresh_world) = Inr ()"
    by (simp add: shim_def bindS_def rebind_def log_def fresh_world_def)
  show ?thesis using shim_rebinds_five[OF ok] ok by (simp add: fresh_world_def)
qed

text \<open>
  C2 as stated speaks of exactly four names. On an installation where \<open>tf\<close> has none of
  the five attributes yet, the shim changes five attributes of \<open>tf\<close>.
\<close>

theorem shim_rebinds_four_counterexample:
  "card {n. tf_attrs (fst (shim fresh_world)) n \<noteq> tf_attrs fresh_world n} \<noteq> 4"
proof -
  have ok: "snd (shim fresh_world) = Inr ()"
    by (simp add: shim_def bindS_def rebind_def log_def fresh_world_def)
  have "{n. tf_attrs (fst (shim fresh_world)) n \<noteq> tf_attrs fresh_world n}
      = {''ceil'', ''floor'', ''abs'', ''sin'', ''cos''}"
    using shim_success(1)[OF ok] by (auto simp: patched_def fresh_world_def split: if_splits)
  then show ?thesis by simp
qed

text \<open>
  C10. Whether the shim returns or raises, it leaves \<open>tf.math\<close>, the file system and
  standard output as they were, and every attribute of \<open>tf\<close> other than \<open>ceil\<close>,
  \<open>floor\<close>, \<open>abs\<close>, \<open>sin\<close> and \<open>cos\<close> keeps its value. When it returns, the state is
  the old state with exactly these five attributes set from \<open>tf.math\<close> (and the five
  assignments entered in the history).
\<close>

theorem shim_frame:
  "tf_math (fst (shim w)) = tf_math w
   \<and> files (fst (shim w)) = files w
   \<and> stdout (fst (shim w)) = stdout w
   \<and> (\<forall>n. n \<notin> {''ceil'', ''floor'', ''abs'', ''sin'', ''cos''} \<longrightarrow>
         tf_attrs (fst (shim w)) n = tf_attrs w n)
   \<and> (snd (shim w) = Inr () \<longrightarrow>
         fst (shim w) =
           w\<lparr>tf_attrs := (\<lambda>n. if n \<in> {''ceil'', ''floor'', ''abs'', ''sin'', ''cos''}
                                then tf_math w n else tf_attrs w n),
             calls := calls w @
               [SetAttr ''ceil'', SetAttr ''floor'', SetAttr ''abs'', SetAttr ''sin'', SetAttr ''cos'']\<rparr>)"
proof -
  have "\<forall>n. n \<notin> {''ceil'', ''floor'', ''abs'', ''sin'', ''cos''} \<longrightarrow>
         tf_attrs (fst (shim w)) n = tf_attrs w n"
    using shim_any(4)[of _ w] by blast
  moreover have "snd (shim w) = Inr () \<longrightarrow>
         fst (shim w) =
           w\<lparr>tf_attrs := (\<lambda>n. if n \<in> {''ceil'', ''floor'', ''abs'', ''sin'', ''cos''}
                                then tf_math w n else tf_attrs w n),
             calls := calls w @
               [SetAttr ''ceil'', SetAttr ''floor'', SetAttr ''abs'', SetAttr ''sin'', SetAttr ''cos'']\<rparr>"
  proof
    assume "snd (shim w) = Inr ()"
    from shim_success(1)[OF this] show "fst (shim w) =
           w\<lparr>tf_attrs := (\<lambda>n. if n \<in> {''ceil'', ''floor'', ''abs'', ''sin'', ''cos''}
                                then tf_math w n else tf_attrs w n),
             calls := calls w @
               [SetAttr ''ceil'', SetAttr ''floor'', SetAttr ''abs'', SetAttr ''sin'', SetAttr ''cos'']\<rparr>"
      unfolding patched_def shim_events_def by simp
  qed
  ultimately show ?thesis using shim_any(1,2,3)[of w] by blast
qed

theorem shim_frame_witness:
  "snd (shim stale_world) = Inr ()
   \<and> tf_attrs (fst (shim stale_world)) ''tan'' = None
   \<and> tf_math (fst (shim stale_world)) = tf_math stale_world
   \<and> files (fst (shim stale_world)) = files stale_world
   \<and> stdout (fst (shim stale_world)) = []"
proof -
  have ok: "snd (shim stale_world) = Inr ()"
    by (simp add: shim_def bindS_def rebind_def log_def stale_world_def fresh_world_def)
  have tan: "tf_attrs stale_world ''tan'' = None" "stdout stale_world = []"
    by (simp_all add: stale_world_def fresh_world_def)
  show ?thesis using shim_frame[of stale_world] ok tan by simp
qed






text \<open>
  C5. A run that reaches line 38 has written the output file once: the node at the
  output path is a file whose content is exactly the bytes that \<open>convert\<close> returned
  for the converter made from the export directory with \<open>optimizations = [DEFAULT]\<close>,
  whatever was at that path before. Outside the export directory no other path has
  changed; the only write in the history is that one, and \<open>convert\<close> was called once.
\<close>

theorem artifact_written:
  assumes "snd (run L w) = Inr ()"
  shows "\<exists>c b. from_saved_model L (read_dir (files (fst (run L w))) export_dir) = Inr c
      \<and> convert L c [DEFAULT] = Inr b
      \<and> files (fst (run L w)) out_path = Some (File b)
      \<and> (\<forall>p. p \<noteq> out_path \<and> \<not> under export_dir p \<longrightarrow> files (fst (run L w)) p = files w p)
      \<and> (\<forall>p b'. Write_bytes p b' \<in> set (new_calls w (fst (run L w))) \<longrightarrow> p = out_path \<and> b' = b)
      \<and> count_list (new_calls w (fst (run L w))) (Write_bytes out_path b) = 1
      \<and> count_list (new_calls w (fst (run L w))) (Convert [DEFAULT]) = 1"
proof -
  obtain w' where ok: "run L w = (w', Inr ())" using assms by (cases "run L w") auto
  then obtain B c b where
    fsm: "from_saved_model L (read_dir (write_bundle export_dir B (cleaned (files w) export_dir)) export_dir) = Inr c"
    and cv: "convert L c [DEFAULT] = Inr b"
    and fw: "files w' = (write_bundle export_dir B (cleaned (files w) export_dir))(out_path \<mapsto> File b)"
    and cw: "calls w' = calls w @ success_events (files w) b"
    unfolding run_success by (elim conjE exE) simp
  from cw have ev: "new_calls w w' = success_events (files w) b" by simp
  have "\<forall>p. p \<noteq> out_path \<and> \<not> under export_dir p \<longrightarrow> files w' p = files w p"
    by (simp add: fw write_bundle_outside cleaned_outside)
  moreover have "from_saved_model L (read_dir (files w') export_dir) = Inr c"
    using fsm by (simp add: fw)
  moreover have "files w' out_path = Some (File b)" by (simp add: fw)
  moreover have "\<forall>p b'. Write_bytes p b' \<in> set (success_events (files w) b) \<longrightarrow> p = out_path \<and> b' = b"
    by (simp add: success_events_def shim_events_def)
  moreover have "count_list (success_events (files w) b) (Write_bytes out_path b) = 1"
    "count_list (success_events (files w) b) (Convert [DEFAULT]) = 1"
    by (simp_all add: success_events_def shim_events_def)
  ultimately show ?thesis
    unfolding ok fst_conv ev using cv by blast
qed

theorem artifact_written_witness:
  "snd (run sample_libs stale_world) = Inr ()
   \<and> files stale_world out_path = Some (File ''old artifact'')
   \<and> files (fst (run sample_libs stale_world)) out_path = Some (File ''qm'')
   \<and> files (fst (run sample_libs stale_world)) in_path = Some (File ''m'')"
proof -
  have "files (fst (run sample_libs stale_world)) out_path = Some (File ''qm'')"
    by (simp add: eval_defs)
  moreover have "files stale_world out_path = Some (File ''old artifact'')"
    "files stale_world in_path = Some (File ''m'')"
    by (simp_all add: stale_world_def fresh_world_def out_path_def in_path_def export_dir_def)
  ultimately show ?thesis
    using artifact_written[OF run_stale] run_stale by auto
qed

text \<open>
  C3, as the code has it. The guard at line 24 asks whether anything exists at the export
  path, a directory or a plain file. If nothing exists there, \<open>rmtree\<close> is not called.
  If something exists there and the run gets as far as \<open>export_graph\<close>, \<open>rmtree\<close> was
  called before it. After a run that reaches line 38 from a state where something
  existed at the export path, the export path is a directory and what lies below it is
  exactly the bundle exported in this run: no file that was there before survives.
\<close>

theorem export_dir_cleaned_before_export:
  "(\<not> path_exists (files w) export_dir \<longrightarrow>
      Rmtree export_dir \<notin> set (new_calls w (fst (run L w))))
   \<and> (path_exists (files w) export_dir
        \<and> Export_graph export_dir \<in> set (new_calls w (fst (run L w))) \<longrightarrow>
      Rmtree export_dir
        \<in> set (takeWhile (\<lambda>e. e \<noteq> Export_graph export_dir) (new_calls w (fst (run L w)))))
   \<and> (path_exists (files w) export_dir \<and> snd (run L w) = Inr () \<longrightarrow>
      (\<exists>m r B. onnx_load L (files w) in_path = Inr m
        \<and> prepare L (tf_attrs (fst (run L w))) m False = Inr r
        \<and> export_bundle L (tf_attrs (fst (run L w))) r = Inr B
        \<and> files (fst (run L w)) export_dir = Some Dir
        \<and> read_dir (files (fst (run L w))) export_dir = B
        \<and> (\<forall>p. under export_dir p \<and> p \<noteq> export_dir \<longrightarrow>
              files (fst (run L w)) p
                = map_option File (B (drop (length export_dir + 1) p)))))"
proof (cases rule: run_cases[of L w])
  case (failure w' l e)
  from failure(3) have ev: "new_calls w w' = run_failure_events l (files w)" by simp
  show ?thesis
    unfolding failure(1) fst_conv snd_conv ev
    using failure_events_rmtree[OF failure(2), of "files w"] by simp
next
  case (success w' b0)
  from success(2) have ev: "new_calls w w' = success_events (files w) b0" by simp
  have third: "\<exists>m r B. onnx_load L (files w) in_path = Inr m
        \<and> prepare L (tf_attrs w') m False = Inr r
        \<and> export_bundle L (tf_attrs w') r = Inr B
        \<and> files w' export_dir = Some Dir
        \<and> read_dir (files w') export_dir = B
        \<and> (\<forall>p. under export_dir p \<and> p \<noteq> export_dir \<longrightarrow>
              files w' p = map_option File (B (drop (length export_dir + 1) p)))"
    if "path_exists (files w) export_dir"
    using run_success_export_dir[OF success(1)] that by blast
  show ?thesis
    unfolding success(1) fst_conv snd_conv ev
    using success_events_rmtree[of "files w" b0] third by simp
qed

theorem export_dir_cleaned_before_export_witness:
  "path_exists (files stale_world) export_dir
   \<and> snd (run sample_libs stale_world) = Inr ()
   \<and> files stale_world (export_dir @ ''/stale.bin'') = Some (File ''old'')
   \<and> files (fst (run sample_libs stale_world)) (export_dir @ ''/stale.bin'') = None
   \<and> files (fst (run sample_libs stale_world)) (export_dir @ ''/saved_model.pb'') = Some (File ''m'')
   \<and> Rmtree export_dir \<in> set (new_calls stale_world (fst (run sample_libs stale_world)))
   \<and> \<not> path_exists (files fresh_world) export_dir
   \<and> Rmtree export_dir \<notin> set (new_calls fresh_world (fst (run sample_libs fresh_world)))"
proof -
  have a: "path_exists (files stale_world) export_dir"
    "files stale_world (export_dir @ ''/stale.bin'') = Some (File ''old'')"
    "\<not> path_exists (files fresh_world) export_dir"
    by (simp_all add: path_exists_def stale_world_def fresh_world_def export_dir_def in_path_def
          out_path_def)
  have b: "files (fst (run sample_libs stale_world)) (export_dir @ ''/stale.bin'') = None"
    "files (fst (run sample_libs stale_world)) (export_dir @ ''/saved_model.pb'') = Some (File ''m'')"
    by (simp_all add: eval_defs)
  have c: "Rmtree export_dir \<in> set (new_calls stale_world (fst (run sample_libs stale_world)))"
    by (simp add: eval_defs new_calls_def)
  show ?thesis
    using export_dir_cleaned_before_export[of stale_world sample_libs]
      export_dir_cleaned_before_export[of fresh_world sample_libs] a b c run_stale
    by simp
qed

text \<open>
  C3 as stated says that nothing is deleted when no directory exists at the export path.
  With a plain file at that path (and no directory), line 24 finds that the path exists
  and line 25 calls \<open>rmtree\<close> on it.
\<close>

theorem rmtree_without_directory_counterexample:
  "files file_at_export_dir_world export_dir = Some (File ''x'')
   \<and> Rmtree export_dir
       \<in> set (new_calls file_at_export_dir_world (fst (run sample_libs file_at_export_dir_world)))"
  by (simp add: eval_defs new_calls_def)

text \<open>
  C8. Take a run that reaches line 38, from a file system in which a missing export
  directory has nothing below it, and run the script again in a new process (the same
  installation, the file system as the first run left it). The second run also reaches
  line 38 and leaves the file system exactly as the first run left it, so the artifact
  holds the same bytes. In the second run \<open>rmtree\<close> is called before \<open>export_graph\<close>, and
  what lies below the export directory afterwards is exactly the bundle exported in that
  run. The libraries are functions of their inputs here, so equal inputs give equal
  bytes.
\<close>

theorem second_run_reproduces:
  assumes wf: "nothing_below_missing (files w) export_dir"
    and ok: "snd (run L w) = Inr ()"
    and env: "tf_attrs w2 = tf_attrs w" "tf_math w2 = tf_math w"
    and fs2: "files w2 = files (fst (run L w))"
  shows "snd (run L w2) = Inr ()
     \<and> files (fst (run L w2)) = files (fst (run L w))
     \<and> Rmtree export_dir
         \<in> set (takeWhile (\<lambda>e. e \<noteq> Export_graph export_dir) (new_calls w2 (fst (run L w2))))
     \<and> (\<exists>m r B. onnx_load L (files w2) in_path = Inr m
          \<and> prepare L (tf_attrs (fst (run L w2))) m False = Inr r
          \<and> export_bundle L (tf_attrs (fst (run L w2))) r = Inr B
          \<and> read_dir (files (fst (run L w2))) export_dir = B
          \<and> (\<forall>p. under export_dir p \<and> p \<noteq> export_dir \<longrightarrow>
                files (fst (run L w2)) p = map_option File (B (drop (length export_dir + 1) p))))"
proof -
  obtain w1 where r1: "run L w = (w1, Inr ())" using ok by (cases "run L w") auto
  from r1 have tm: "tf_math w ''ceil'' \<noteq> None" "tf_math w ''floor'' \<noteq> None"
    "tf_math w ''abs'' \<noteq> None" "tf_math w ''sin'' \<noteq> None" "tf_math w ''cos'' \<noteq> None"
    unfolding run_success by blast+
  from r1 obtain m r B c b where
    ib: "import_backend L (patched w) = None"
    and ld: "onnx_load L (files w) in_path = Inr m"
    and pr: "prepare L (patched w) m False = Inr r"
    and eb: "export_bundle L (patched w) r = Inr B"
    and fsm: "from_saved_model L (read_dir (write_bundle export_dir B (cleaned (files w) export_dir)) export_dir) = Inr c"
    and cv: "convert L c [DEFAULT] = Inr b"
    and fw: "files w1 = (write_bundle export_dir B (cleaned (files w) export_dir))(out_path \<mapsto> File b)"
    unfolding run_success by (elim conjE exE) simp
  define F where "F = cleaned (files w) export_dir"
  have cl: "\<And>p. under export_dir p \<Longrightarrow> F p = None"
    unfolding F_def using wf by (simp add: cleaned_below)
  have f2: "files w2 = (write_bundle export_dir B F)(out_path \<mapsto> File b)"
    using fs2 r1 fw by (simp add: F_def)
  have ex2: "path_exists (files w2) export_dir"
    using paths(4)[symmetric] by (simp add: f2 path_exists_def)
  have cl2: "\<And>p. under export_dir p \<Longrightarrow> cleaned (files w2) export_dir p = None"
    using ex2 by (simp add: cleaned_below)
  have pa: "patched w2 = patched w" unfolding patched_def env by (rule refl)
  have "files w2 in_path = files w in_path"
    using paths(2,3) by (simp add: f2 F_def write_bundle_outside cleaned_outside)
  then have ld2: "onnx_load L (files w2) in_path = Inr m"
    using ld by (simp add: onnx_load_def)
  have "read_dir (write_bundle export_dir B (cleaned (files w2) export_dir)) export_dir
      = read_dir (write_bundle export_dir B F) export_dir"
    by (simp add: read_dir_write_bundle_clean[OF cl] read_dir_write_bundle_clean[OF cl2])
  with fsm have fsm2:
    "from_saved_model L (read_dir (write_bundle export_dir B (cleaned (files w2) export_dir)) export_dir) = Inr c"
    by (simp add: F_def)
  have nd: "files w2 out_path \<noteq> Some Dir" "\<forall>x. files w2 export_dir = Some (File x) \<longrightarrow> rmtree_deletes_file L"
    using paths(4)[symmetric] by (simp_all add: f2)
  define w2' where "w2' = w2\<lparr>tf_attrs := patched w2,
      files := (write_bundle export_dir B (cleaned (files w2) export_dir))(out_path \<mapsto> File b),
      stdout := stdout w2 @ [join_space [wrote_msg, out_path]],
      calls := calls w2 @ success_events (files w2) b\<rparr>"
  have r2: "run L w2 = (w2', Inr ())"
    unfolding run_success w2'_def pa
    using tm ib ld2 pr eb fsm2 cv nd by (auto simp: env)
  have "files w2' = files w2"
    using rerun_files[OF cl f2] by (simp add: w2'_def)
  then have same: "files w2' = files w1" using fs2 r1 by simp
  have "new_calls w2 w2' = success_events (files w2) b" by (simp add: w2'_def)
  then have rm: "Rmtree export_dir
         \<in> set (takeWhile (\<lambda>e. e \<noteq> Export_graph export_dir) (new_calls w2 w2'))"
    using success_events_rmtree(2)[OF ex2] by simp
  from run_success_export_dir[OF r2] ex2 same rm show ?thesis
    unfolding r1 r2 fst_conv snd_conv by simp blast
qed

theorem second_run_reproduces_witness:
  "nothing_below_missing (files fresh_world) export_dir
   \<and> snd (run sample_libs fresh_world) = Inr ()
   \<and> snd (run sample_libs (fresh_world\<lparr>files := files (fst (run sample_libs fresh_world))\<rparr>)) = Inr ()
   \<and> files (fst (run sample_libs (fresh_world\<lparr>files := files (fst (run sample_libs fresh_world))\<rparr>)))
       = files (fst (run sample_libs fresh_world))
   \<and> files (fst (run sample_libs fresh_world)) out_path = Some (File ''qm'')"
proof -
  have wf: "nothing_below_missing (files fresh_world) export_dir"
    using paths(2) by (auto simp: nothing_below_missing_def fresh_world_def)
  have "files (fst (run sample_libs fresh_world)) out_path = Some (File ''qm'')"
    by (simp add: eval_defs)
  then show ?thesis
    using second_run_reproduces[OF wf run_fresh,
        of "fresh_world\<lparr>files := files (fst (run sample_libs fresh_world))\<rparr>"] wf run_fresh
    by simp
qed

end
